theory Spec2Isabelle
  imports Main
begin

section \<open>Python values and helpers used by the SAP service\<close>

text \<open>
  The class \<open>WorkingSAPService\<close> occurs twice, in \<open>lab-03b-working-sap-agent.py\<close> and in
  \<open>metadata-driven-sap-agent.py\<close>; the methods \<open>get_headers\<close>, \<open>get_csrf_token\<close> and
  \<open>remove_delivery_block\<close> are the same in both up to calls of \<open>print\<close>, which are left out.
  Characters stand for code points below 256.
\<close>

text \<open>A value stored in a header dictionary: \<open>self.cookies\<close> may still be \<open>None\<close> when it
  is stored under \<open>'Cookie'\<close>.\<close>

datatype pyval = PyNone | PyStr string

type_synonym headers = "(string \<times> pyval) list"

text \<open>\<open>d[k] = v\<close> on an insertion-ordered dictionary.\<close>

fun dict_set :: "'k \<Rightarrow> 'v \<Rightarrow> ('k \<times> 'v) list \<Rightarrow> ('k \<times> 'v) list" where
  "dict_set k v [] = [(k, v)]"
| "dict_set k v ((k', v') # d) = (if k = k' then (k, v) # d else (k', v') # dict_set k v d)"

text \<open>Truth value of an \<open>Optional[str]\<close>: \<open>None\<close> and the empty string are false.\<close>

fun truthy :: "string option \<Rightarrow> bool" where
  "truthy None = False"
| "truthy (Some s) = (s \<noteq> [])"

text \<open>\<open>a or b\<close>.\<close>

definition py_or :: "string option \<Rightarrow> string option \<Rightarrow> string option" where
  "py_or a b = (if truthy a then a else b)"

text \<open>\<open>sep.join(xs)\<close>.\<close>

fun py_join :: "string \<Rightarrow> string list \<Rightarrow> string" where
  "py_join sep [] = []"
| "py_join sep [x] = x"
| "py_join sep (x # y # xs) = x @ sep @ py_join sep (y # xs)"

text \<open>\<open>s.split(c)\<close> for a separator of one character; the result is never empty.\<close>

fun py_split :: "char \<Rightarrow> string \<Rightarrow> string list" where
  "py_split c [] = [[]]"
| "py_split c (x # xs) =
     (if x = c then [] # py_split c xs
      else (case py_split c xs of
              [] \<Rightarrow> [[x]]
            | w # ws \<Rightarrow> (x # w) # ws))"

text \<open>\<open>s.split(c)[0]\<close>; the index is always in range.\<close>

definition split_first :: "char \<Rightarrow> string \<Rightarrow> string" where
  "split_first c s = (case py_split c s of [] \<Rightarrow> [] | w # ws \<Rightarrow> w)"

text \<open>\<open>s.replace('SO', '')\<close>: occurrences are removed from left to right, without
  looking again at the text that results.\<close>

fun remove_SO :: "string \<Rightarrow> string" where
  "remove_SO (c # d # rest) =
     (if c = CHR ''S'' \<and> d = CHR ''O'' then remove_SO rest else c # remove_SO (d # rest))"
| "remove_SO [c] = [c]"
| "remove_SO [] = []"

text \<open>\<open>str.isspace\<close> on one character, for code points below 256.\<close>

definition is_space :: "char \<Rightarrow> bool" where
  "is_space c = (c \<in> set [CHR 0x09, CHR 0x0A, CHR 0x0B, CHR 0x0C, CHR 0x0D,
                          CHR 0x1C, CHR 0x1D, CHR 0x1E, CHR 0x1F, CHR 0x20,
                          CHR 0x85, CHR 0xA0])"

text \<open>\<open>s.strip()\<close>.\<close>

definition py_strip :: "string \<Rightarrow> string" where
  "py_strip s = rev (dropWhile is_space (rev (dropWhile is_space s)))"

text \<open>\<open>str(order_id).replace('SO', '').strip()\<close>, as written in \<open>read_sales_order\<close> and in
  \<open>remove_delivery_block\<close>.\<close>

definition clean_order_id :: "string \<Rightarrow> string" where
  "clean_order_id order_id = py_strip (remove_SO order_id)"

text \<open>\<open>str(n)\<close> for an integer.\<close>

fun str_nat :: "nat \<Rightarrow> string" where
  "str_nat n =
     (if n < 10 then [''0123456789'' ! n]
      else str_nat (n div 10) @ [''0123456789'' ! (n mod 10)])"

declare str_nat.simps [simp del]

definition str_int :: "int \<Rightarrow> string" where
  "str_int i = (if i < 0 then CHR ''-'' # str_nat (nat (- i)) else str_nat (nat i))"

text \<open>\<open>json.dumps\<close> of a dictionary of strings. Only the double quote and the backslash
  are escaped here; the one dictionary the service serialises is a literal without
  control characters.\<close>

definition json_escape :: "char \<Rightarrow> string" where
  "json_escape c =
     (if c = CHR 0x22 then [CHR 0x5C, CHR 0x22]
      else if c = CHR 0x5C then [CHR 0x5C, CHR 0x5C]
      else [c])"

definition json_str :: "string \<Rightarrow> string" where
  "json_str s = [CHR 0x22] @ concat (map json_escape s) @ [CHR 0x22]"

definition json_dumps :: "(string \<times> string) list \<Rightarrow> string" where
  "json_dumps d =
     ''{'' @ py_join '', '' (map (\<lambda>(k, v). json_str k @ '': '' @ json_str v) d) @ ''}''"

section \<open>Requests, responses and the service object\<close>

record request =
  req_method :: string
  req_url :: string
  req_headers :: headers
  req_body :: "string option"

text \<open>
  A response of \<open>urllib3\<close>, seen through the operations the service applies to it:
  \<open>response.status\<close>, \<open>response.headers.get(name)\<close>, \<open>response.headers.get_all(name)\<close>
  and \<open>response.data.decode('utf-8')\<close>, which raises on bytes that are not UTF-8
  (\<open>Inl\<close> holds the text of the exception).
\<close>

record response =
  status :: int
  headers_get :: "string \<Rightarrow> string option"
  headers_get_all :: "string \<Rightarrow> string list"
  data_decode :: "string + string"

record SAPConfig =
  base_url :: string
  username :: string
  password :: string
  verify_ssl :: bool

text \<open>
  The library behind the service: the Base64 encoding inside
  \<open>urllib3.make_headers\<close>, and \<open>PoolManager.request\<close>. A request either raises (\<open>Inl\<close>
  holds \<open>str(e)\<close>) or returns a response, and moves the remote system of type \<open>'w\<close> to
  its next state.
\<close>

record 'w lib =
  b64encode :: "string \<Rightarrow> string"
  http_request :: "'w \<Rightarrow> request \<Rightarrow> (string + response) \<times> 'w"

text \<open>\<open>urllib3.make_headers(basic_auth=auth)\<close>: a dictionary with the one key
  \<open>authorization\<close>.\<close>

definition make_headers :: "'w lib \<Rightarrow> string \<Rightarrow> headers" where
  "make_headers L auth = [(''authorization'', PyStr (''Basic '' @ b64encode L auth))]"

text \<open>
  The service object with the remote system it talks to. \<open>issued\<close> is a ghost field: the
  calls of \<open>self.http.request\<close> made so far, oldest first.
\<close>

record 'w sap =
  config :: SAPConfig
  csrf_token :: "string option"
  cookies :: "string option"
  net :: 'w
  issued :: "request list"

definition init :: "SAPConfig \<Rightarrow> 'w \<Rightarrow> 'w sap" where
  "init cfg w = \<lparr>config = cfg, csrf_token = None, cookies = None, net = w, issued = []\<rparr>"

definition service_url :: string where
  "service_url = ''/sap/opu/odata/sap/API_SALES_ORDER_SRV''"

text \<open>\<open>self.http.request(method, url, body=body, headers=headers)\<close>.\<close>

definition request :: "'w lib \<Rightarrow> 'w sap \<Rightarrow> string \<Rightarrow> string \<Rightarrow> headers \<Rightarrow> string option
    \<Rightarrow> (string + response) \<times> 'w sap" where
  "request L s m u h b =
     (let rq = \<lparr>req_method = m, req_url = u, req_headers = h, req_body = b\<rparr>;
          (out, w) = http_request L (net s) rq
      in (out, s\<lparr>net := w, issued := issued s @ [rq]\<rparr>))"

definition opt_pyval :: "string option \<Rightarrow> pyval" where
  "opt_pyval x = (case x of None \<Rightarrow> PyNone | Some v \<Rightarrow> PyStr v)"

definition get_headers :: "'w lib \<Rightarrow> 'w sap \<Rightarrow> bool \<Rightarrow> headers" where
  "get_headers L s include_csrf =
     (let headers = make_headers L (username (config s) @ '':'' @ password (config s));
          headers = dict_set ''Content-Type'' (PyStr ''application/json'') headers;
          headers = dict_set ''Accept'' (PyStr ''application/json'') headers
      in if include_csrf \<and> truthy (csrf_token s)
         then dict_set ''Cookie'' (opt_pyval (cookies s))
                (dict_set ''x-csrf-token'' (opt_pyval (csrf_token s)) headers)
         else headers)"

definition join_cookies :: "string list \<Rightarrow> string" where
  "join_cookies cs = py_join ''; '' (map (split_first CHR '';'') cs)"

definition get_csrf_token :: "'w lib \<Rightarrow> 'w sap \<Rightarrow> bool \<times> 'w sap" where
  "get_csrf_token L s =
     (let headers = dict_set ''x-csrf-token'' (PyStr ''fetch'') (get_headers L s False);
          url = base_url (config s) @ service_url @ ''/?$format=json''
      in case request L s ''GET'' url headers None of
           (Inl e, s1) \<Rightarrow> (False, s1)
         | (Inr resp, s1) \<Rightarrow>
             (let tok = headers_get resp ''x-csrf-token'' in
              if truthy tok then
                (let s2 = s1\<lparr>csrf_token := tok\<rparr>;
                     cs = headers_get_all resp ''Set-Cookie''
                 in (True, if cs \<noteq> [] then s2\<lparr>cookies := Some (join_cookies cs)\<rparr> else s2))
              else (False, s1)))"

definition test_connection :: "'w lib \<Rightarrow> 'w sap \<Rightarrow> bool \<times> 'w sap" where
  "test_connection L s =
     (let url = base_url (config s) @ service_url @ ''/?$format=json'';
          headers = get_headers L s False
      in case request L s ''GET'' url headers None of
           (Inl e, s1) \<Rightarrow> (False, s1)
         | (Inr resp, s1) \<Rightarrow> (status resp = 200, s1))"

text \<open>The dictionary a call returns: \<open>{'success': True, ...}\<close> or
  \<open>{'success': False, 'error': ...}\<close>.\<close>

datatype 'd result = Ok 'd | Err string

text \<open>The entries of a successful removal next to \<open>'success'\<close>.\<close>

record removal =
  message :: string
  reason :: string

definition entity_url :: "'w sap \<Rightarrow> string \<Rightarrow> string" where
  "entity_url s key = base_url (config s) @ service_url @ ''/A_SalesOrder('' @ [CHR 0x27] @ key @ [CHR 0x27] @ '')''"

text \<open>\<open>parse_d\<close> stands for \<open>json.loads(text).get('d', {})\<close>, which may raise.\<close>

definition read_sales_order :: "'w lib \<Rightarrow> (string \<Rightarrow> string + 'd) \<Rightarrow> 'w sap \<Rightarrow> string
    \<Rightarrow> 'd result \<times> 'w sap" where
  "read_sales_order L parse_d s order_id =
     (let clean = clean_order_id order_id;
          url = entity_url s clean;
          params = ''$expand=to_Item&$format=json'';
          full_url = url @ ''?'' @ params;
          headers = get_headers L s False
      in case request L s ''GET'' full_url headers None of
           (Inl e, s1) \<Rightarrow> (Err e, s1)
         | (Inr resp, s1) \<Rightarrow>
             if status resp = 200 then
               (case data_decode resp of
                  Inl e \<Rightarrow> (Err e, s1)
                | Inr text \<Rightarrow>
                    (case parse_d text of
                       Inl e \<Rightarrow> (Err e, s1)
                     | Inr order_data \<Rightarrow> (Ok order_data, s1)))
             else (Err (''Order not found: '' @ str_int (status resp)), s1))"

definition update_data :: "(string \<times> string) list" where
  "update_data = [(''DeliveryBlockReason'', '''')]"

text \<open>\<open>etag_response.headers.get('ETag') or ...get('etag') or ...get('Etag')\<close>.\<close>

definition read_etag :: "response \<Rightarrow> string option" where
  "read_etag r =
     py_or (py_or (headers_get r ''ETag'') (headers_get r ''etag'')) (headers_get r ''Etag'')"

text \<open>\<open>if etag: headers['If-Match'] = etag\<close>.\<close>

definition with_if_match :: "string option \<Rightarrow> headers \<Rightarrow> headers" where
  "with_if_match etag headers =
     (case etag of
        None \<Rightarrow> headers
      | Some e \<Rightarrow> if e \<noteq> [] then dict_set ''If-Match'' (PyStr e) headers else headers)"

definition remove_delivery_block :: "'w lib \<Rightarrow> 'w sap \<Rightarrow> string \<Rightarrow> string
    \<Rightarrow> removal result \<times> 'w sap" where
  "remove_delivery_block L s order_id rsn =
     (let clean = clean_order_id order_id;
          (ok, s1) = get_csrf_token L s
      in if \<not> ok then (Err ''Failed to get CSRF token'', s1)
         else
           (let get_url = entity_url s1 clean @ ''?$format=json'';
                headers = get_headers L s1 False
            in case request L s1 ''GET'' get_url headers None of
                 (Inl e, s2) \<Rightarrow> (Err e, s2)
               | (Inr etag_response, s2) \<Rightarrow>
                   if status etag_response \<noteq> 200 then
                     (Err (''Failed to get order for ETag: '' @ str_int (status etag_response)), s2)
                   else
                     (let etag = read_etag etag_response;
                          patch_url = entity_url s2 clean;
                          headers = with_if_match etag (get_headers L s2 True);
                          encoded_payload = json_dumps update_data
                      in case request L s2 ''PATCH'' patch_url headers (Some encoded_payload) of
                           (Inl e, s3) \<Rightarrow> (Err e, s3)
                         | (Inr resp, s3) \<Rightarrow>
                             if status resp = 200 \<or> status resp = 204 then
                               (Ok \<lparr>message = ''Delivery block removed from order '' @ order_id,
                                    reason = rsn\<rparr>, s3)
                             else
                               (case data_decode resp of
                                  Inl e \<Rightarrow> (Err e, s3)
                                | Inr response_text \<Rightarrow>
                                    (Err (''Update failed: '' @ str_int (status resp) @ '' - ''
                                          @ response_text), s3)))))"

text \<open>The requests a call added to the log.\<close>

definition new_requests :: "'w sap \<Rightarrow> 'w sap \<Rightarrow> request list" where
  "new_requests s s' = drop (length (issued s)) (issued s')"

definition is_patch :: "request \<Rightarrow> bool" where
  "is_patch rq = (req_method rq = ''PATCH'')"

text \<open>The three requests \<open>remove_delivery_block\<close> can make, as the code builds them.\<close>

definition token_rq :: "'w lib \<Rightarrow> 'w sap \<Rightarrow> request" where
  "token_rq L s =
     \<lparr>req_method = ''GET'',
      req_url = base_url (config s) @ service_url @ ''/?$format=json'',
      req_headers = dict_set ''x-csrf-token'' (PyStr ''fetch'') (get_headers L s False),
      req_body = None\<rparr>"

definition stamp_rq :: "'w lib \<Rightarrow> 'w sap \<Rightarrow> string \<Rightarrow> request" where
  "stamp_rq L s key =
     \<lparr>req_method = ''GET'',
      req_url = entity_url s key @ ''?$format=json'',
      req_headers = get_headers L s False,
      req_body = None\<rparr>"

definition patch_rq :: "'w lib \<Rightarrow> 'w sap \<Rightarrow> string \<Rightarrow> string option \<Rightarrow> request" where
  "patch_rq L s key etag =
     \<lparr>req_method = ''PATCH'',
      req_url = entity_url s key,
      req_headers = with_if_match etag (get_headers L s True),
      req_body = Some (json_dumps update_data)\<rparr>"

text \<open>\<open>headers.get(name)\<close> of a request's header dictionary.\<close>

definition header :: "request \<Rightarrow> string \<Rightarrow> pyval option" where
  "header rq name = map_of (req_headers rq) name"

text \<open>The service object after \<open>self.http.request\<close> was called with \<open>rq\<close>.\<close>

definition sent :: "'w lib \<Rightarrow> 'w sap \<Rightarrow> request \<Rightarrow> 'w sap" where
  "sent L s rq = s\<lparr>net := snd (http_request L (net s) rq), issued := issued s @ [rq]\<rparr>"

text \<open>What \<open>self.http.request\<close> returns or raises for \<open>rq\<close>.\<close>

definition outcome :: "'w lib \<Rightarrow> 'w sap \<Rightarrow> request \<Rightarrow> string + response" where
  "outcome L s rq = fst (http_request L (net s) rq)"

section \<open>A scripted remote system\<close>

text \<open>
  A test double for the library: the remote system is the list of outcomes still to be
  served, one per request; header names of a response compare without regard to case and
  \<open>get\<close> joins repeated headers with a comma, as \<open>urllib3\<close> does. The Base64 encoding
  is replaced by the identity.
\<close>

definition lower :: "char \<Rightarrow> char" where
  "lower c =
     (case map_of (zip ''ABCDEFGHIJKLMNOPQRSTUVWXYZ'' ''abcdefghijklmnopqrstuvwxyz'') c of
        None \<Rightarrow> c
      | Some d \<Rightarrow> d)"

definition header_values :: "(string \<times> string) list \<Rightarrow> string \<Rightarrow> string list" where
  "header_values hs name = map snd (filter (\<lambda>h. map lower (fst h) = map lower name) hs)"

definition mock_response :: "int \<Rightarrow> (string \<times> string) list \<Rightarrow> string \<Rightarrow> response" where
  "mock_response st hs body =
     \<lparr>status = st,
      headers_get = (\<lambda>name. if header_values hs name = [] then None
                             else Some (py_join '', '' (header_values hs name))),
      headers_get_all = header_values hs,
      data_decode = Inr body\<rparr>"

definition mock_lib :: "((string + response) list) lib" where
  "mock_lib =
     \<lparr>b64encode = (\<lambda>auth. auth),
      http_request = (\<lambda>w rq. case w of [] \<Rightarrow> (Inl ''connection refused'', [])
                                      | out # rest \<Rightarrow> (out, rest))\<rparr>"

definition mock_config :: SAPConfig where
  "mock_config = \<lparr>base_url = ''https://sap.test'', username = ''u'', password = ''p'',
                  verify_ssl = False\<rparr>"

definition mock_service :: "(string + response) list \<Rightarrow> ((string + response) list) sap" where
  "mock_service script = init mock_config script"

text \<open>Responses and scripts used as concrete inputs.\<close>

definition token_response :: response where
  "token_response =
     mock_response 200 [(''x-csrf-token'', ''tok123''), (''Set-Cookie'', ''a=1; Path=/''),
                        (''Set-Cookie'', ''b=2; HttpOnly'')] ''''"

definition order_response :: response where
  "order_response = mock_response 200 [(''ETag'', ''W/abc123'')] ''{}''"

definition forbidden_response :: response where
  "forbidden_response = mock_response 403 [] ''Forbidden''"

definition script_removed :: "(string + response) list" where
  "script_removed = [Inr token_response, Inr order_response, Inr (mock_response 204 [] '''')]"

definition script_no_token :: "(string + response) list" where
  "script_no_token = [Inr forbidden_response]"



definition precondition_response :: response where
  "precondition_response = mock_response 412 [] ''Precondition Failed''"

definition script_precondition :: "(string + response) list" where
  "script_precondition = [Inr token_response, Inr order_response, Inr precondition_response]"

text \<open>A read answered with an \<open>ETag\<close> header of empty value.\<close>

definition empty_etag_response :: response where
  "empty_etag_response = mock_response 200 [(''ETag'', '''')] ''{}''"

definition script_empty_etag :: "(string + response) list" where
  "script_empty_etag =
     [Inr token_response, Inr empty_etag_response, Inr (mock_response 204 [] '''')]"

text \<open>A read answered without any \<open>ETag\<close> header.\<close>

definition plain_order_response :: response where
  "plain_order_response = mock_response 200 [] ''{}''"

definition script_no_stamp :: "(string + response) list" where
  "script_no_stamp =
     [Inr token_response, Inr plain_order_response, Inr (mock_response 204 [] '''')]"

text \<open>A PATCH answered 500 with a body that is not UTF-8: \<open>decode\<close> raises.\<close>

definition undecodable_response :: response where
  "undecodable_response =
     \<lparr>status = 500, headers_get = (\<lambda>name. None), headers_get_all = (\<lambda>name. []),
      data_decode = Inl ''invalid start byte''\<rparr>"

definition script_undecodable :: "(string + response) list" where
  "script_undecodable = [Inr token_response, Inr order_response, Inr undecodable_response]"

text \<open>A PATCH answered 403.\<close>

definition script_forbidden_write :: "(string + response) list" where
  "script_forbidden_write = [Inr token_response, Inr order_response, Inr forbidden_response]"

text \<open>Token requests answered 200 with an \<open>x-csrf-token\<close> header of empty value, and
  answered 403 with a token.\<close>

definition empty_token_response :: response where
  "empty_token_response = mock_response 200 [(''x-csrf-token'', '''')] ''''"

definition forbidden_token_response :: response where
  "forbidden_token_response = mock_response 403 [(''x-csrf-token'', ''tok403'')] ''Forbidden''"

text \<open>Token answers with a repeated cookie and with three cookies.\<close>

definition duplicate_cookie_response :: response where
  "duplicate_cookie_response =
     mock_response 200 [(''x-csrf-token'', ''tok123''), (''Set-Cookie'', ''a=1; Path=/''),
                        (''Set-Cookie'', ''a=1; Path=/'')] ''''"

definition three_cookie_response :: response where
  "three_cookie_response =
     mock_response 200 [(''x-csrf-token'', ''tok123''), (''Set-Cookie'', ''a=1; Path=/''),
                        (''Set-Cookie'', ''b=2''), (''Set-Cookie'', ''c=3;Secure;HttpOnly'')] ''''"

text \<open>A service object that already holds a token and cookies from an earlier call.\<close>

definition stale_service :: "(string + response) list \<Rightarrow> ((string + response) list) sap" where
  "stale_service script = (mock_service script)\<lparr>csrf_token := Some ''old'', cookies := Some ''z=9''\<rparr>"

section \<open>The shape of a call\<close>

lemma request_eq:
  "request L s m u h b =
     (outcome L s \<lparr>req_method = m, req_url = u, req_headers = h, req_body = b\<rparr>,
      sent L s \<lparr>req_method = m, req_url = u, req_headers = h, req_body = b\<rparr>)"
  by (simp add: request_def outcome_def sent_def Let_def split: prod.splits)

lemma get_csrf_token_eq:
  "get_csrf_token L s =
     (case outcome L s (token_rq L s) of
        Inl e \<Rightarrow> (False, sent L s (token_rq L s))
      | Inr resp \<Rightarrow>
          if truthy (headers_get resp ''x-csrf-token'') then
            (True, (if headers_get_all resp ''Set-Cookie'' \<noteq> []
                    then (sent L s (token_rq L s))\<lparr>csrf_token := headers_get resp ''x-csrf-token'',
                           cookies := Some (join_cookies (headers_get_all resp ''Set-Cookie''))\<rparr>
                    else (sent L s (token_rq L s))\<lparr>csrf_token := headers_get resp ''x-csrf-token''\<rparr>))
          else (False, sent L s (token_rq L s)))"
  by (simp add: get_csrf_token_def request_eq token_rq_def Let_def split: sum.splits)

lemma outcome_mock: "outcome mock_lib (mock_service (x # xs)) rq = x"
  by (simp add: outcome_def mock_lib_def mock_service_def init_def)

lemma issued_sent [simp]: "issued (sent L s rq) = issued s @ [rq]"
  by (simp add: sent_def)

lemma fields_sent [simp]:
  "csrf_token (sent L s rq) = csrf_token s"
  "cookies (sent L s rq) = cookies s"
  "config (sent L s rq) = config s"
  by (simp_all add: sent_def)

lemma issued_get_csrf_token: "issued (snd (get_csrf_token L s)) = issued s @ [token_rq L s]"
  by (simp add: get_csrf_token_eq split: sum.splits)


lemma remove_delivery_block_eq:
  "remove_delivery_block L s order_id rsn =
     (let clean = clean_order_id order_id; s1 = snd (get_csrf_token L s) in
      if \<not> fst (get_csrf_token L s) then (Err ''Failed to get CSRF token'', s1)
      else
        (let g = stamp_rq L s1 clean; s2 = sent L s1 g in
         case outcome L s1 g of
           Inl e \<Rightarrow> (Err e, s2)
         | Inr etag_response \<Rightarrow>
             if status etag_response \<noteq> 200 then
               (Err (''Failed to get order for ETag: '' @ str_int (status etag_response)), s2)
             else
               (let p = patch_rq L s2 clean (read_etag etag_response); s3 = sent L s2 p in
                case outcome L s2 p of
                  Inl e \<Rightarrow> (Err e, s3)
                | Inr resp \<Rightarrow>
                    if status resp = 200 \<or> status resp = 204 then
                      (Ok \<lparr>message = ''Delivery block removed from order '' @ order_id,
                           reason = rsn\<rparr>, s3)
                    else
                      (case data_decode resp of
                         Inl e \<Rightarrow> (Err e, s3)
                       | Inr response_text \<Rightarrow>
                           (Err (''Update failed: '' @ str_int (status resp) @ '' - ''
                                 @ response_text), s3)))))"
  by (simp add: remove_delivery_block_def request_eq stamp_rq_def patch_rq_def Let_def
      split: prod.splits sum.splits)

lemma is_patch_rq [simp]:
  "\<not> is_patch (token_rq L s)"
  "\<not> is_patch (stamp_rq L s k)"
  "is_patch (patch_rq L s k e)"
  by (simp_all add: is_patch_def token_rq_def stamp_rq_def patch_rq_def)

text \<open>The requests of one call of \<open>remove_delivery_block\<close>: the token request, then the
  read of the order if a token came back, then the PATCH if the read returned 200.\<close>

lemma requests_of_removal:
  "new_requests s (snd (remove_delivery_block L s order_id rsn)) =
     token_rq L s #
     (if fst (get_csrf_token L s) then
        stamp_rq L (snd (get_csrf_token L s)) (clean_order_id order_id) #
        (case outcome L (snd (get_csrf_token L s))
                (stamp_rq L (snd (get_csrf_token L s)) (clean_order_id order_id)) of
           Inl e \<Rightarrow> []
         | Inr er \<Rightarrow>
             if status er = 200 then
               [patch_rq L (sent L (snd (get_csrf_token L s))
                              (stamp_rq L (snd (get_csrf_token L s)) (clean_order_id order_id)))
                  (clean_order_id order_id) (read_etag er)]
             else [])
      else [])"
  by (simp add: remove_delivery_block_eq new_requests_def issued_get_csrf_token Let_def
      split: sum.splits)

subsection \<open>Headers of the requests\<close>

lemma map_of_dict_set:
  "map_of (dict_set k v d) k' = (if k' = k then Some v else map_of d k')"
  by (induction d) auto

lemma get_headers_no_if_match: "map_of (get_headers L s b) ''If-Match'' = None"
  by (simp add: get_headers_def make_headers_def Let_def map_of_dict_set)

lemma if_match_of_patch:
  "header (patch_rq L s k etag) ''If-Match'' = (if truthy etag then map_option PyStr etag else None)"
  by (cases etag)
     (simp_all add: header_def patch_rq_def with_if_match_def map_of_dict_set get_headers_no_if_match)

lemma read_etag_eq:
  "read_etag er =
     (if truthy (headers_get er ''ETag'') then headers_get er ''ETag''
      else if truthy (headers_get er ''etag'') then headers_get er ''etag''
      else headers_get er ''Etag'')"
  by (simp add: read_etag_def py_or_def)

lemma requests_when_read_ok:
  "fst (get_csrf_token L s) \<Longrightarrow>
   outcome L (snd (get_csrf_token L s))
     (stamp_rq L (snd (get_csrf_token L s)) (clean_order_id order_id)) = Inr er \<Longrightarrow>
   status er = 200 \<Longrightarrow>
   new_requests s (snd (remove_delivery_block L s order_id rsn)) =
     [token_rq L s, stamp_rq L (snd (get_csrf_token L s)) (clean_order_id order_id),
      patch_rq L (sent L (snd (get_csrf_token L s))
                    (stamp_rq L (snd (get_csrf_token L s)) (clean_order_id order_id)))
        (clean_order_id order_id) (read_etag er)]"
  by (simp add: requests_of_removal)

lemma truthy_token_after:
  "fst (get_csrf_token L s) \<Longrightarrow> truthy (csrf_token (snd (get_csrf_token L s)))"
  by (auto simp add: get_csrf_token_eq split: sum.splits if_splits)

lemma patch_issued_iff:
  "(\<exists>rq \<in> set (new_requests s (snd (remove_delivery_block L s order_id rsn))). is_patch rq) =
     (fst (get_csrf_token L s) \<and>
      (\<exists>er. outcome L (snd (get_csrf_token L s))
               (stamp_rq L (snd (get_csrf_token L s)) (clean_order_id order_id)) = Inr er
            \<and> status er = 200))"
  by (cases "outcome L (snd (get_csrf_token L s))
               (stamp_rq L (snd (get_csrf_token L s)) (clean_order_id order_id))")
     (auto simp add: requests_of_removal)

lemma token_header_of_patch:
  "truthy (csrf_token s) \<Longrightarrow>
   header (patch_rq L s k etag) ''x-csrf-token'' = map_option PyStr (csrf_token s)"
  by (cases etag; cases "csrf_token s")
     (simp_all add: header_def patch_rq_def with_if_match_def get_headers_def make_headers_def
        Let_def map_of_dict_set opt_pyval_def)

lemma same_entity_urls:
  "req_url (stamp_rq L s1 k) =
     req_url (patch_rq L (sent L s1 g) k etag) @ ''?$format=json''"
  by (simp add: stamp_rq_def patch_rq_def entity_url_def)

lemma cookie_header:
  "truthy (csrf_token s) \<Longrightarrow> map_of (get_headers L s True) ''Cookie'' = Some (opt_pyval (cookies s))"
  by (simp add: get_headers_def Let_def map_of_dict_set)

subsection \<open>Strings\<close>

lemma py_split_not_Nil: "py_split c s \<noteq> []"
  by (induction s) (auto split: list.splits)

lemma split_first_takeWhile: "split_first c s = takeWhile (\<lambda>x. x \<noteq> c) s"
  by (induction s) (auto simp add: split_first_def split: list.splits)





subsection \<open>Session state, reason and addresses\<close>

lemma session_after_removal:
  "csrf_token (snd (remove_delivery_block L s order_id rsn)) = csrf_token (snd (get_csrf_token L s))"
  "cookies (snd (remove_delivery_block L s order_id rsn)) = cookies (snd (get_csrf_token L s))"
  by (simp_all add: remove_delivery_block_eq Let_def split: sum.splits)

lemma session_after_read:
  "csrf_token (snd (read_sales_order L parse_d s order_id)) = csrf_token s"
  "cookies (snd (read_sales_order L parse_d s order_id)) = cookies s"
  by (simp_all add: read_sales_order_def request_eq Let_def split: sum.splits)

lemma session_after_test:
  "csrf_token (snd (test_connection L s)) = csrf_token s"
  "cookies (snd (test_connection L s)) = cookies s"
  by (simp_all add: test_connection_def request_eq Let_def split: sum.splits)

lemma token_kept_or_set:
  "csrf_token (snd (get_csrf_token L s)) = csrf_token s \<or>
   truthy (csrf_token (snd (get_csrf_token L s)))"
  by (simp add: get_csrf_token_eq split: sum.splits)

lemma cookies_kept_or_set:
  "cookies (snd (get_csrf_token L s)) = cookies s \<or>
   (\<exists>c. cookies (snd (get_csrf_token L s)) = Some c)"
  by (simp add: get_csrf_token_eq split: sum.splits)

lemma state_without_reason:
  "snd (remove_delivery_block L s order_id rsn) = snd (remove_delivery_block L s order_id rsn')"
  by (simp add: remove_delivery_block_eq Let_def split: sum.splits)

lemma result_without_reason:
  "fst (remove_delivery_block L s order_id rsn') =
     (case fst (remove_delivery_block L s order_id rsn) of
        Ok m \<Rightarrow> Ok (m\<lparr>reason := rsn'\<rparr>)
      | Err e \<Rightarrow> Err e)"
  by (simp add: remove_delivery_block_eq Let_def split: sum.splits)

lemma body_of_patch: \<open>req_body (patch_rq L s k e) = Some ''{"DeliveryBlockReason": ""}''\<close>
  by (simp add: patch_rq_def json_dumps_def json_str_def json_escape_def update_data_def)

lemma body_of_issued_patch:
  \<open>rq \<in> set (new_requests s (snd (remove_delivery_block L s order_id rsn))) \<Longrightarrow>
   is_patch rq \<Longrightarrow> req_body rq = Some ''{"DeliveryBlockReason": ""}''\<close>
  by (auto simp add: requests_of_removal body_of_patch split: if_splits sum.splits)



subsection \<open>Runs against the scripted system\<close>

lemma net_get_csrf_token:
  "net (snd (get_csrf_token L s)) = snd (http_request L (net s) (token_rq L s))"
  by (simp add: get_csrf_token_eq sent_def split: sum.splits)

lemma outcome_mock2:
  "outcome mock_lib (snd (get_csrf_token mock_lib (mock_service (x # y # ys)))) rq = y"
  by (simp add: outcome_def net_get_csrf_token mock_lib_def mock_service_def init_def)

lemma outcome_mock3:
  "outcome mock_lib (sent mock_lib (snd (get_csrf_token mock_lib (mock_service (x # y # z # zs)))) g) rq = z"
  by (simp add: outcome_def sent_def net_get_csrf_token mock_lib_def mock_service_def init_def)

subsection \<open>Joining, removing and stripping, stated without the functions themselves\<close>

lemma py_join_eq: "py_join sep (x # xs) = x @ concat (map (\<lambda>y. sep @ y) xs)"
  by (induction xs arbitrary: x) auto

lemma join_cookies_eq:
  "join_cookies (c # cs) =
     takeWhile (\<lambda>x. x \<noteq> CHR '';'') c
       @ concat (map (\<lambda>y. ''; '' @ takeWhile (\<lambda>x. x \<noteq> CHR '';'') y) cs)"
  by (simp add: join_cookies_def py_join_eq split_first_takeWhile comp_def)





subsection \<open>The token step\<close>

lemma outcome_stale: "outcome mock_lib (stale_service (x # xs)) rq = x"
  by (simp add: outcome_def mock_lib_def stale_service_def mock_service_def init_def)

lemma session_after_token_failure:
  "\<not> fst (get_csrf_token L s) \<Longrightarrow>
   csrf_token (snd (get_csrf_token L s)) = csrf_token s \<and>
   cookies (snd (get_csrf_token L s)) = cookies s"
  by (auto simp add: get_csrf_token_eq split: sum.splits if_splits)

lemma session_after_token_success:
  "fst (get_csrf_token L s) \<Longrightarrow>
   \<exists>resp. outcome L s (token_rq L s) = Inr resp \<and>
     truthy (headers_get resp ''x-csrf-token'') \<and>
     csrf_token (snd (get_csrf_token L s)) = headers_get resp ''x-csrf-token'' \<and>
     cookies (snd (get_csrf_token L s)) =
       (case headers_get_all resp ''Set-Cookie'' of
          [] \<Rightarrow> cookies s
        | c # cs \<Rightarrow>
            Some (takeWhile (\<lambda>x. x \<noteq> CHR '';'') c
                  @ concat (map (\<lambda>y. ''; '' @ takeWhile (\<lambda>x. x \<noteq> CHR '';'') y) cs)))"
  by (auto simp add: get_csrf_token_eq join_cookies_eq split: sum.splits if_splits list.splits)

section \<open>The write needs a token\<close>

text \<open>
  C1. In a call of \<open>remove_delivery_block\<close> a PATCH is among the requests made only if
  \<open>get_csrf_token\<close> returned \<open>True\<close> in that call. When the answer to the token request has
  no \<open>x-csrf-token\<close> header, \<open>get_csrf_token\<close> returns \<open>False\<close>, the call returns the failure
  \<open>Failed to get CSRF token\<close>, and the token request is the only request it made.
\<close>

theorem update_needs_token:
  "remove_delivery_block L s order_id rsn = (r, s') \<Longrightarrow>
     ((\<exists>rq \<in> set (new_requests s s'). is_patch rq) \<longrightarrow> fst (get_csrf_token L s)) \<and>
     (\<forall>resp. outcome L s (token_rq L s) = Inr resp \<and> headers_get resp ''x-csrf-token'' = None \<longrightarrow>
        \<not> fst (get_csrf_token L s) \<and> r = Err ''Failed to get CSRF token'' \<and>
        new_requests s s' = [token_rq L s])"
proof (intro conjI allI impI)
  assume a: "remove_delivery_block L s order_id rsn = (r, s')"
  then have t: "new_requests s s' = new_requests s (snd (remove_delivery_block L s order_id rsn))"
    by simp
  show "fst (get_csrf_token L s)" if "\<exists>rq \<in> set (new_requests s s'). is_patch rq"
  proof (rule ccontr)
    assume "\<not> fst (get_csrf_token L s)"
    then have "new_requests s s' = [token_rq L s]"
      by (simp add: t requests_of_removal)
    with that show False by simp
  qed
  fix resp
  assume "outcome L s (token_rq L s) = Inr resp \<and> headers_get resp ''x-csrf-token'' = None"
  then show n: "\<not> fst (get_csrf_token L s)"
    by (simp add: get_csrf_token_eq)
  with a show "r = Err ''Failed to get CSRF token''"
    by (simp add: remove_delivery_block_eq)
  from n show "new_requests s s' = [token_rq L s]"
    by (simp add: t requests_of_removal)
qed

theorem update_needs_token_witness:
  "(\<exists>rq \<in> set (new_requests (mock_service script_removed)
        (snd (remove_delivery_block mock_lib (mock_service script_removed) ''SO4353'' ''ok''))).
      is_patch rq) \<and>
   fst (get_csrf_token mock_lib (mock_service script_removed)) \<and>
   outcome mock_lib (mock_service script_no_token)
     (token_rq mock_lib (mock_service script_no_token)) = Inr forbidden_response \<and>
   headers_get forbidden_response ''x-csrf-token'' = None \<and>
   \<not> fst (get_csrf_token mock_lib (mock_service script_no_token)) \<and>
   fst (remove_delivery_block mock_lib (mock_service script_no_token) ''SO4353'' ''ok'')
     = Err ''Failed to get CSRF token'' \<and>
   new_requests (mock_service script_no_token)
     (snd (remove_delivery_block mock_lib (mock_service script_no_token) ''SO4353'' ''ok''))
     = [token_rq mock_lib (mock_service script_no_token)]"
proof -
  let ?A = "mock_service script_removed" and ?B = "mock_service script_no_token"
  have p: "\<exists>rq \<in> set (new_requests ?A
        (snd (remove_delivery_block mock_lib ?A ''SO4353'' ''ok''))). is_patch rq"
    by code_simp
  have o: "outcome mock_lib ?B (token_rq mock_lib ?B) = Inr forbidden_response"
    by (simp add: script_no_token_def outcome_mock)
  have h: "headers_get forbidden_response ''x-csrf-token'' = None"
    by code_simp
  have ra: "remove_delivery_block mock_lib ?A ''SO4353'' ''ok'' =
      (fst (remove_delivery_block mock_lib ?A ''SO4353'' ''ok''),
       snd (remove_delivery_block mock_lib ?A ''SO4353'' ''ok''))" by simp
  have rb: "remove_delivery_block mock_lib ?B ''SO4353'' ''ok'' =
      (fst (remove_delivery_block mock_lib ?B ''SO4353'' ''ok''),
       snd (remove_delivery_block mock_lib ?B ''SO4353'' ''ok''))" by simp
  from update_needs_token [OF ra] p
  have 1: "fst (get_csrf_token mock_lib ?A)" by blast
  from update_needs_token [OF rb] o h
  have 2: "\<not> fst (get_csrf_token mock_lib ?B) \<and>
    fst (remove_delivery_block mock_lib ?B ''SO4353'' ''ok'') = Err ''Failed to get CSRF token'' \<and>
    new_requests ?B (snd (remove_delivery_block mock_lib ?B ''SO4353'' ''ok'')) = [token_rq mock_lib ?B]"
    by blast
  from p 1 o h 2 show ?thesis by blast
qed

section \<open>The stamp of the read guards the write\<close>

text \<open>
  C2, as the code has it. When the token was obtained and the read of the order returned
  200, the call makes exactly three requests, the last one a PATCH, and the PATCH carries
  \<open>If-Match\<close> with the first non-empty value among \<open>headers.get('ETag')\<close>,
  \<open>headers.get('etag')\<close> and \<open>headers.get('Etag')\<close>, in this order. When none of the three
  is a non-empty string the PATCH is made all the same, without \<open>If-Match\<close>.
\<close>

theorem if_match_echoes_stamp:
  assumes "fst (get_csrf_token L s)"
    and "outcome L (snd (get_csrf_token L s))
           (stamp_rq L (snd (get_csrf_token L s)) (clean_order_id order_id)) = Inr er"
    and "status er = 200"
  shows "\<exists>g p. new_requests s (snd (remove_delivery_block L s order_id rsn)) = [token_rq L s, g, p]
           \<and> is_patch p
           \<and> header p ''If-Match'' =
               (if truthy (headers_get er ''ETag'') then map_option PyStr (headers_get er ''ETag'')
                else if truthy (headers_get er ''etag'') then map_option PyStr (headers_get er ''etag'')
                else if truthy (headers_get er ''Etag'') then map_option PyStr (headers_get er ''Etag'')
                else None)"
  using requests_when_read_ok [OF assms]
  by (simp add: if_match_of_patch read_etag_eq)

theorem if_match_echoes_stamp_witness:
  "fst (get_csrf_token mock_lib (mock_service script_removed)) \<and>
   outcome mock_lib (snd (get_csrf_token mock_lib (mock_service script_removed)))
     (stamp_rq mock_lib (snd (get_csrf_token mock_lib (mock_service script_removed)))
        (clean_order_id ''SO4353'')) = Inr order_response \<and>
   status order_response = 200 \<and>
   headers_get order_response ''ETag'' = Some ''W/abc123'' \<and>
   (\<exists>g p. new_requests (mock_service script_removed)
             (snd (remove_delivery_block mock_lib (mock_service script_removed) ''SO4353'' ''ok''))
             = [token_rq mock_lib (mock_service script_removed), g, p]
          \<and> is_patch p \<and> header p ''If-Match'' = Some (PyStr ''W/abc123''))"
proof -
  let ?A = "mock_service script_removed"
  have t: "fst (get_csrf_token mock_lib ?A)" by code_simp
  have o: "outcome mock_lib (snd (get_csrf_token mock_lib ?A))
     (stamp_rq mock_lib (snd (get_csrf_token mock_lib ?A)) (clean_order_id ''SO4353''))
     = Inr order_response"
    by (simp add: script_removed_def outcome_mock2)
  have st: "status order_response = 200" by code_simp
  have e: "headers_get order_response ''ETag'' = Some ''W/abc123''" by code_simp
  from if_match_echoes_stamp [OF t o st, of "''ok''"] e
  have "\<exists>g p. new_requests ?A (snd (remove_delivery_block mock_lib ?A ''SO4353'' ''ok''))
             = [token_rq mock_lib ?A, g, p]
          \<and> is_patch p \<and> header p ''If-Match'' = Some (PyStr ''W/abc123'')"
    by simp
  with t o st e show ?thesis by blast
qed

text \<open>
  C2 as stated fails for a stamp that is the empty string: the read returns an \<open>ETag\<close>
  header, and the PATCH goes out without \<open>If-Match\<close>.
\<close>

theorem empty_stamp_counterexample:
  "headers_get empty_etag_response ''ETag'' = Some '''' \<and>
   map (\<lambda>rq. (req_method rq, header rq ''If-Match''))
     (new_requests (mock_service script_empty_etag)
        (snd (remove_delivery_block mock_lib (mock_service script_empty_etag) ''4353'' ''ok'')))
     = [(''GET'', None), (''GET'', None), (''PATCH'', None)]"
  by code_simp

section \<open>What a write holds\<close>

text \<open>
  C3, as the code has it. A call of \<open>remove_delivery_block\<close> makes a PATCH exactly when
  \<open>get_csrf_token\<close> returned \<open>True\<close> in that call and the read of the order returned 200.
  The PATCH is then the third request, after the token request and the read of the same
  entity; it carries the token just cached under \<open>x-csrf-token\<close>, and its \<open>If-Match\<close> is
  taken from that read. Whether the read brought a stamp does not decide whether the PATCH
  is made.
\<close>

theorem write_needs_token_and_read:
  assumes "s1 = snd (get_csrf_token L s)"
    and "k = clean_order_id order_id"
    and "s' = snd (remove_delivery_block L s order_id rsn)"
  shows "((\<exists>rq \<in> set (new_requests s s'). is_patch rq) =
           (fst (get_csrf_token L s) \<and>
            (\<exists>er. outcome L s1 (stamp_rq L s1 k) = Inr er \<and> status er = 200))) \<and>
         ((\<exists>rq \<in> set (new_requests s s'). is_patch rq) \<longrightarrow>
            (\<exists>er p. outcome L s1 (stamp_rq L s1 k) = Inr er \<and>
               p = patch_rq L (sent L s1 (stamp_rq L s1 k)) k (read_etag er) \<and>
               new_requests s s' = [token_rq L s, stamp_rq L s1 k, p] \<and>
               truthy (csrf_token s1) \<and>
               header p ''x-csrf-token'' = map_option PyStr (csrf_token s1) \<and>
               req_url (stamp_rq L s1 k) = req_url p @ ''?$format=json''))"
proof (intro conjI impI)
  show "(\<exists>rq \<in> set (new_requests s s'). is_patch rq) =
           (fst (get_csrf_token L s) \<and>
            (\<exists>er. outcome L s1 (stamp_rq L s1 k) = Inr er \<and> status er = 200))"
    unfolding assms by (rule patch_issued_iff)
next
  assume "\<exists>rq \<in> set (new_requests s s'). is_patch rq"
  then have t: "fst (get_csrf_token L s)"
    and "\<exists>er. outcome L s1 (stamp_rq L s1 k) = Inr er \<and> status er = 200"
    unfolding assms by (simp_all add: patch_issued_iff)
  then obtain er where o: "outcome L s1 (stamp_rq L s1 k) = Inr er" and st: "status er = 200"
    by blast
  let ?p = "patch_rq L (sent L s1 (stamp_rq L s1 k)) k (read_etag er)"
  have tr: "truthy (csrf_token s1)"
    using t unfolding assms by (rule truthy_token_after)
  have "new_requests s s' = [token_rq L s, stamp_rq L s1 k, ?p]"
    using t o st unfolding assms by (simp add: requests_when_read_ok)
  moreover have "header ?p ''x-csrf-token'' = map_option PyStr (csrf_token s1)"
    using tr by (simp add: token_header_of_patch)
  moreover have "req_url (stamp_rq L s1 k) = req_url ?p @ ''?$format=json''"
    by (rule same_entity_urls)
  ultimately show "\<exists>er p. outcome L s1 (stamp_rq L s1 k) = Inr er \<and>
               p = patch_rq L (sent L s1 (stamp_rq L s1 k)) k (read_etag er) \<and>
               new_requests s s' = [token_rq L s, stamp_rq L s1 k, p] \<and>
               truthy (csrf_token s1) \<and>
               header p ''x-csrf-token'' = map_option PyStr (csrf_token s1) \<and>
               req_url (stamp_rq L s1 k) = req_url p @ ''?$format=json''"
    using o tr by blast
qed

theorem write_needs_token_and_read_witness:
  "(\<exists>rq \<in> set (new_requests (mock_service script_removed)
        (snd (remove_delivery_block mock_lib (mock_service script_removed) ''SO4353'' ''ok''))).
      is_patch rq) \<and>
   fst (get_csrf_token mock_lib (mock_service script_removed)) \<and>
   (\<exists>er p. outcome mock_lib (snd (get_csrf_token mock_lib (mock_service script_removed)))
        (stamp_rq mock_lib (snd (get_csrf_token mock_lib (mock_service script_removed)))
           (clean_order_id ''SO4353'')) = Inr er \<and>
      status er = 200 \<and>
      new_requests (mock_service script_removed)
        (snd (remove_delivery_block mock_lib (mock_service script_removed) ''SO4353'' ''ok''))
      = [token_rq mock_lib (mock_service script_removed),
         stamp_rq mock_lib (snd (get_csrf_token mock_lib (mock_service script_removed)))
           (clean_order_id ''SO4353''), p] \<and>
      header p ''x-csrf-token''
        = map_option PyStr (csrf_token (snd (get_csrf_token mock_lib (mock_service script_removed)))))"
proof -
  let ?A = "mock_service script_removed"
  have p: "\<exists>rq \<in> set (new_requests ?A
        (snd (remove_delivery_block mock_lib ?A ''SO4353'' ''ok''))). is_patch rq"
    by code_simp
  note w = write_needs_token_and_read [where L = mock_lib and s = "mock_service script_removed"
      and order_id = "''SO4353''" and rsn = "''ok''", OF refl refl refl]
  from w p have t: "fst (get_csrf_token mock_lib ?A)" by blast
  from w p have "\<exists>er. outcome mock_lib (snd (get_csrf_token mock_lib ?A))
        (stamp_rq mock_lib (snd (get_csrf_token mock_lib ?A)) (clean_order_id ''SO4353'')) = Inr er
        \<and> status er = 200" by blast
  then obtain er where o: "outcome mock_lib (snd (get_csrf_token mock_lib ?A))
        (stamp_rq mock_lib (snd (get_csrf_token mock_lib ?A)) (clean_order_id ''SO4353'')) = Inr er"
    and st: "status er = 200" by blast
  from w p obtain er' q where
    o': "outcome mock_lib (snd (get_csrf_token mock_lib ?A))
        (stamp_rq mock_lib (snd (get_csrf_token mock_lib ?A)) (clean_order_id ''SO4353'')) = Inr er'"
    and n: "new_requests ?A (snd (remove_delivery_block mock_lib ?A ''SO4353'' ''ok''))
      = [token_rq mock_lib ?A,
         stamp_rq mock_lib (snd (get_csrf_token mock_lib ?A)) (clean_order_id ''SO4353''), q]"
    and h: "header q ''x-csrf-token''
        = map_option PyStr (csrf_token (snd (get_csrf_token mock_lib ?A)))"
    by blast
  from o o' st have "status er' = 200" by simp
  with p t o' n h show ?thesis by blast
qed

text \<open>
  C3 as stated fails when the read brings no stamp: no \<open>ETag\<close> header under any
  spelling, and the PATCH is made and the call succeeds.
\<close>

theorem write_without_stamp_counterexample:
  "headers_get plain_order_response ''ETag'' = None \<and>
   headers_get plain_order_response ''etag'' = None \<and>
   headers_get plain_order_response ''Etag'' = None \<and>
   map (\<lambda>rq. (req_method rq, header rq ''If-Match''))
     (new_requests (mock_service script_no_stamp)
        (snd (remove_delivery_block mock_lib (mock_service script_no_stamp) ''4353'' ''ok'')))
     = [(''GET'', None), (''GET'', None), (''PATCH'', None)] \<and>
   fst (remove_delivery_block mock_lib (mock_service script_no_stamp) ''4353'' ''ok'')
     = Ok \<lparr>message = ''Delivery block removed from order 4353'', reason = ''ok''\<rparr>"
  by code_simp

section \<open>A failed read\<close>



section \<open>The answer to the write\<close>

text \<open>
  What the code does with the answer to the PATCH, once the token was obtained and the
  read returned 200: status 200 or 204 gives the success result, whatever the body is; any
  other status goes to a branch that decodes the body and then builds
  \<open>Update failed: <status> - <body>\<close>. The call makes three requests, exactly one of them
  a PATCH, whatever the answer.
\<close>

lemma write_outcome:
  assumes "s1 = snd (get_csrf_token L s)"
    and "k = clean_order_id order_id"
    and "s2 = sent L s1 (stamp_rq L s1 k)"
    and "fst (get_csrf_token L s)"
    and "outcome L s1 (stamp_rq L s1 k) = Inr er"
    and "status er = 200"
    and "outcome L s2 (patch_rq L s2 k (read_etag er)) = Inr resp"
  shows "(status resp = 200 \<or> status resp = 204 \<longrightarrow>
            fst (remove_delivery_block L s order_id rsn)
              = Ok \<lparr>message = ''Delivery block removed from order '' @ order_id, reason = rsn\<rparr>) \<and>
         (status resp \<noteq> 200 \<and> status resp \<noteq> 204 \<longrightarrow>
            fst (remove_delivery_block L s order_id rsn)
              = (case data_decode resp of
                   Inl e \<Rightarrow> Err e
                 | Inr body \<Rightarrow>
                     Err (''Update failed: '' @ str_int (status resp) @ '' - '' @ body))) \<and>
         length (filter is_patch (new_requests s (snd (remove_delivery_block L s order_id rsn)))) = 1 \<and>
         length (new_requests s (snd (remove_delivery_block L s order_id rsn))) = 3"
proof (intro conjI impI)
  assume "status resp = 200 \<or> status resp = 204"
  then show "fst (remove_delivery_block L s order_id rsn)
      = Ok \<lparr>message = ''Delivery block removed from order '' @ order_id, reason = rsn\<rparr>"
    using assms(4-7) unfolding assms(1-3)
    by (simp add: remove_delivery_block_eq Let_def)
next
  assume "status resp \<noteq> 200 \<and> status resp \<noteq> 204"
  then show "fst (remove_delivery_block L s order_id rsn)
      = (case data_decode resp of
           Inl e \<Rightarrow> Err e
         | Inr body \<Rightarrow> Err (''Update failed: '' @ str_int (status resp) @ '' - '' @ body))"
    using assms(4-7) unfolding assms(1-3)
    by (simp add: remove_delivery_block_eq Let_def split: sum.splits)
next
  have n: "new_requests s (snd (remove_delivery_block L s order_id rsn))
      = [token_rq L s, stamp_rq L s1 k, patch_rq L s2 k (read_etag er)]"
    using assms(4-6) unfolding assms(1-3) by (simp add: requests_when_read_ok)
  show "length (filter is_patch (new_requests s (snd (remove_delivery_block L s order_id rsn)))) = 1"
    by (simp add: n)
  show "length (new_requests s (snd (remove_delivery_block L s order_id rsn))) = 3"
    by (simp add: n)
qed

lemma write_outcome_on_scripts:
  "fst (get_csrf_token mock_lib (mock_service script_removed)) \<and>
   status order_response = 200 \<and>
   status (mock_response 204 [] '''') = 204 \<and>
   fst (remove_delivery_block mock_lib (mock_service script_removed) ''SO4353'' ''ok'')
     = Ok \<lparr>message = ''Delivery block removed from order SO4353'', reason = ''ok''\<rparr> \<and>
   fst (get_csrf_token mock_lib (mock_service script_precondition)) \<and>
   status precondition_response = 412 \<and>
   data_decode precondition_response = Inr ''Precondition Failed'' \<and>
   fst (remove_delivery_block mock_lib (mock_service script_precondition) ''SO4353'' ''ok'')
     = Err ''Update failed: 412 - Precondition Failed'' \<and>
   length (filter is_patch (new_requests (mock_service script_precondition)
     (snd (remove_delivery_block mock_lib (mock_service script_precondition) ''SO4353'' ''ok''))))
     = 1"
proof -
  let ?A = "mock_service script_removed" and ?B = "mock_service script_precondition"
  have ta: "fst (get_csrf_token mock_lib ?A)" by code_simp
  have tb: "fst (get_csrf_token mock_lib ?B)" by code_simp
  have oa: "outcome mock_lib (snd (get_csrf_token mock_lib ?A))
     (stamp_rq mock_lib (snd (get_csrf_token mock_lib ?A)) (clean_order_id ''SO4353''))
     = Inr order_response"
    by (simp add: script_removed_def outcome_mock2)
  have ob: "outcome mock_lib (snd (get_csrf_token mock_lib ?B))
     (stamp_rq mock_lib (snd (get_csrf_token mock_lib ?B)) (clean_order_id ''SO4353''))
     = Inr order_response"
    by (simp add: script_precondition_def outcome_mock2)
  have so: "status order_response = 200" by code_simp
  have pa: "outcome mock_lib
      (sent mock_lib (snd (get_csrf_token mock_lib ?A))
         (stamp_rq mock_lib (snd (get_csrf_token mock_lib ?A)) (clean_order_id ''SO4353'')))
      (patch_rq mock_lib
         (sent mock_lib (snd (get_csrf_token mock_lib ?A))
            (stamp_rq mock_lib (snd (get_csrf_token mock_lib ?A)) (clean_order_id ''SO4353'')))
         (clean_order_id ''SO4353'') (read_etag order_response))
      = Inr (mock_response 204 [] '''')"
    by (simp add: script_removed_def outcome_mock3)
  have pb: "outcome mock_lib
      (sent mock_lib (snd (get_csrf_token mock_lib ?B))
         (stamp_rq mock_lib (snd (get_csrf_token mock_lib ?B)) (clean_order_id ''SO4353'')))
      (patch_rq mock_lib
         (sent mock_lib (snd (get_csrf_token mock_lib ?B))
            (stamp_rq mock_lib (snd (get_csrf_token mock_lib ?B)) (clean_order_id ''SO4353'')))
         (clean_order_id ''SO4353'') (read_etag order_response))
      = Inr precondition_response"
    by (simp add: script_precondition_def outcome_mock3)
  have s4: "status (mock_response 204 [] '''') = 204" by code_simp
  have s5: "status precondition_response = 412" by code_simp
  have d5: "data_decode precondition_response = Inr ''Precondition Failed''" by code_simp
  have m: "''Update failed: '' @ str_int 412 @ '' - '' @ ''Precondition Failed''
      = ''Update failed: 412 - Precondition Failed''" by code_simp
  from write_outcome [where rsn = "''ok''", OF refl refl refl ta oa so pa] s4
  have ra: "fst (remove_delivery_block mock_lib ?A ''SO4353'' ''ok'')
     = Ok \<lparr>message = ''Delivery block removed from order SO4353'', reason = ''ok''\<rparr>"
    by simp
  from write_outcome [where rsn = "''ok''", OF refl refl refl tb ob so pb] s5 d5 m
  have rb: "fst (remove_delivery_block mock_lib ?B ''SO4353'' ''ok'')
     = Err ''Update failed: 412 - Precondition Failed'' \<and>
     length (filter is_patch (new_requests ?B
       (snd (remove_delivery_block mock_lib ?B ''SO4353'' ''ok'')))) = 1"
    by simp
  from ta so s4 ra tb s5 d5 rb show ?thesis by blast
qed

text \<open>
  C5. The rejection branch sets out to report the status and the body, and does so for
  every body that decodes. For a rejected write whose body is not UTF-8 it does not:
  \<open>decode\<close> raises before the message is built, the handler of the method returns
  \<open>str(e)\<close>, and the failure carries neither the status 500 nor the body.
\<close>

theorem undecodable_rejection_drops_status:
  "status undecodable_response = 500 \<and>
   data_decode undecodable_response = Inl ''invalid start byte'' \<and>
   fst (remove_delivery_block mock_lib (mock_service script_undecodable) ''4353'' ''ok'')
     = Err ''invalid start byte''"
  by code_simp

section \<open>The cookie header\<close>

text \<open>
  C6, as the code has it. When the answer to the token request carries a non-empty
  \<open>x-csrf-token\<close> and the \<open>Set-Cookie\<close> values \<open>c, c1, ..., cn\<close>, \<open>get_csrf_token\<close> succeeds
  and caches as cookies the text of \<open>c\<close> before its first semicolon, followed for each
  further value by \<open>; \<close> and the text of that value before its first semicolon: one entry
  per header, in the order received, repeated cookies included. A later write sends this
  text as its \<open>Cookie\<close> header. From \<open>a=1; Path=/\<close> and \<open>b=2; HttpOnly\<close> the result is
  \<open>a=1; b=2\<close>.
\<close>

theorem cookies_joined:
  assumes "outcome L s (token_rq L s) = Inr resp"
    and "truthy (headers_get resp ''x-csrf-token'')"
    and "headers_get_all resp ''Set-Cookie'' = c # cs"
  shows "fst (get_csrf_token L s) \<and>
         cookies (snd (get_csrf_token L s))
           = Some (takeWhile (\<lambda>x. x \<noteq> CHR '';'') c
                   @ concat (map (\<lambda>y. ''; '' @ takeWhile (\<lambda>x. x \<noteq> CHR '';'') y) cs)) \<and>
         map_of (get_headers L (snd (get_csrf_token L s)) True) ''Cookie''
           = Some (PyStr (takeWhile (\<lambda>x. x \<noteq> CHR '';'') c
                   @ concat (map (\<lambda>y. ''; '' @ takeWhile (\<lambda>x. x \<noteq> CHR '';'') y) cs))) \<and>
         (c # cs = [''a=1; Path=/'', ''b=2; HttpOnly''] \<longrightarrow>
            cookies (snd (get_csrf_token L s)) = Some ''a=1; b=2'')"
proof -
  have t: "fst (get_csrf_token L s)"
    using assms by (simp add: get_csrf_token_eq)
  have c: "cookies (snd (get_csrf_token L s)) = Some (join_cookies (c # cs))"
    using assms by (simp add: get_csrf_token_eq)
  have h: "map_of (get_headers L (snd (get_csrf_token L s)) True) ''Cookie''
      = Some (PyStr (join_cookies (c # cs)))"
    using truthy_token_after [OF t] by (simp add: cookie_header c opt_pyval_def)
  have e: "join_cookies [''a=1; Path=/'', ''b=2; HttpOnly''] = ''a=1; b=2''"
    by code_simp
  have x: "c # cs = [''a=1; Path=/'', ''b=2; HttpOnly''] \<longrightarrow>
      cookies (snd (get_csrf_token L s)) = Some ''a=1; b=2''"
    using c e by auto
  from t c h have "fst (get_csrf_token L s) \<and>
         cookies (snd (get_csrf_token L s))
           = Some (takeWhile (\<lambda>x. x \<noteq> CHR '';'') c
                   @ concat (map (\<lambda>y. ''; '' @ takeWhile (\<lambda>x. x \<noteq> CHR '';'') y) cs)) \<and>
         map_of (get_headers L (snd (get_csrf_token L s)) True) ''Cookie''
           = Some (PyStr (takeWhile (\<lambda>x. x \<noteq> CHR '';'') c
                   @ concat (map (\<lambda>y. ''; '' @ takeWhile (\<lambda>x. x \<noteq> CHR '';'') y) cs)))"
    by (simp only: join_cookies_eq simp_thms)
  with x show ?thesis by blast
qed

theorem cookies_joined_witness:
  "outcome mock_lib (mock_service script_removed) (token_rq mock_lib (mock_service script_removed))
     = Inr token_response \<and>
   truthy (headers_get token_response ''x-csrf-token'') \<and>
   headers_get_all token_response ''Set-Cookie'' = [''a=1; Path=/'', ''b=2; HttpOnly''] \<and>
   fst (get_csrf_token mock_lib (mock_service script_removed)) \<and>
   cookies (snd (get_csrf_token mock_lib (mock_service script_removed))) = Some ''a=1; b=2'' \<and>
   map_of (get_headers mock_lib (snd (get_csrf_token mock_lib (mock_service script_removed))) True)
     ''Cookie'' = Some (PyStr ''a=1; b=2'') \<and>
   headers_get_all three_cookie_response ''Set-Cookie''
     = [''a=1; Path=/'', ''b=2'', ''c=3;Secure;HttpOnly''] \<and>
   cookies (snd (get_csrf_token mock_lib (mock_service [Inr three_cookie_response])))
     = Some ''a=1; b=2; c=3''"
proof -
  let ?A = "mock_service script_removed" and ?B = "mock_service [Inr three_cookie_response]"
  have o: "outcome mock_lib ?A (token_rq mock_lib ?A) = Inr token_response"
    by (simp add: script_removed_def outcome_mock)
  have t: "truthy (headers_get token_response ''x-csrf-token'')" by code_simp
  have a: "headers_get_all token_response ''Set-Cookie'' = [''a=1; Path=/'', ''b=2; HttpOnly'']"
    by code_simp
  have o': "outcome mock_lib ?B (token_rq mock_lib ?B) = Inr three_cookie_response"
    by (rule outcome_mock)
  have t': "truthy (headers_get three_cookie_response ''x-csrf-token'')" by code_simp
  have a': "headers_get_all three_cookie_response ''Set-Cookie''
      = [''a=1; Path=/'', ''b=2'', ''c=3;Secure;HttpOnly'']"
    by code_simp
  from cookies_joined [OF o t a]
  have 1: "fst (get_csrf_token mock_lib ?A) \<and>
    cookies (snd (get_csrf_token mock_lib ?A)) = Some ''a=1; b=2'' \<and>
    map_of (get_headers mock_lib (snd (get_csrf_token mock_lib ?A)) True) ''Cookie''
      = Some (PyStr ''a=1; b=2'')"
    by simp
  from cookies_joined [OF o' t' a']
  have 2: "cookies (snd (get_csrf_token mock_lib ?B)) = Some ''a=1; b=2; c=3''"
    by simp
  from o t a 1 a' 2 show ?thesis by blast
qed

text \<open>
  C6 as stated fails when a cookie is sent twice: the cached text holds it twice, not
  the distinct cookies.
\<close>

theorem duplicate_cookies_counterexample:
  "headers_get_all duplicate_cookie_response ''Set-Cookie'' = [''a=1; Path=/'', ''a=1; Path=/''] \<and>
   fst (get_csrf_token mock_lib (mock_service [Inr duplicate_cookie_response])) \<and>
   cookies (snd (get_csrf_token mock_lib (mock_service [Inr duplicate_cookie_response])))
     = Some ''a=1; a=1''"
  by code_simp

section \<open>The cached session state\<close>

text \<open>
  C7, as the code has it. The cached token and cookies after \<open>remove_delivery_block\<close> are
  those \<open>get_csrf_token\<close> left; \<open>read_sales_order\<close> and \<open>test_connection\<close> do not touch
  them. When \<open>get_csrf_token\<close> returns \<open>False\<close> both are exactly what they were. When it
  returns \<open>True\<close>, the token is the non-empty \<open>x-csrf-token\<close> of the answer, and the
  cookies are the joined \<open>Set-Cookie\<close> values of the answer if it has any and what they
  were if it has none. The status of no response enters: nothing is invalidated on 403,
  and a token once held is never replaced by none or by the empty string. Every removal
  starts with the token request, so every write acquires a token anew.
\<close>

theorem session_state_set_by_token_step:
  "csrf_token (snd (remove_delivery_block L s order_id rsn)) = csrf_token (snd (get_csrf_token L s)) \<and>
   cookies (snd (remove_delivery_block L s order_id rsn)) = cookies (snd (get_csrf_token L s)) \<and>
   csrf_token (snd (read_sales_order L parse_d s order_id)) = csrf_token s \<and>
   cookies (snd (read_sales_order L parse_d s order_id)) = cookies s \<and>
   csrf_token (snd (test_connection L s)) = csrf_token s \<and>
   cookies (snd (test_connection L s)) = cookies s \<and>
   (\<not> fst (get_csrf_token L s) \<longrightarrow>
      csrf_token (snd (get_csrf_token L s)) = csrf_token s \<and>
      cookies (snd (get_csrf_token L s)) = cookies s) \<and>
   (fst (get_csrf_token L s) \<longrightarrow>
      (\<exists>resp. outcome L s (token_rq L s) = Inr resp \<and>
         truthy (headers_get resp ''x-csrf-token'') \<and>
         csrf_token (snd (get_csrf_token L s)) = headers_get resp ''x-csrf-token'' \<and>
         cookies (snd (get_csrf_token L s)) =
           (case headers_get_all resp ''Set-Cookie'' of
              [] \<Rightarrow> cookies s
            | c # cs \<Rightarrow>
                Some (takeWhile (\<lambda>x. x \<noteq> CHR '';'') c
                      @ concat (map (\<lambda>y. ''; '' @ takeWhile (\<lambda>x. x \<noteq> CHR '';'') y) cs))))) \<and>
   (truthy (csrf_token s) \<longrightarrow> truthy (csrf_token (snd (get_csrf_token L s)))) \<and>
   (cookies s \<noteq> None \<longrightarrow> cookies (snd (get_csrf_token L s)) \<noteq> None) \<and>
   (\<exists>rest. new_requests s (snd (remove_delivery_block L s order_id rsn)) = token_rq L s # rest)"
proof (intro conjI impI)
  show "truthy (csrf_token (snd (get_csrf_token L s)))" if "truthy (csrf_token s)"
    using that token_kept_or_set [of L s] by auto
  show "cookies (snd (get_csrf_token L s)) \<noteq> None" if "cookies s \<noteq> None"
    using that cookies_kept_or_set [of L s] by auto
  show "\<exists>rest. new_requests s (snd (remove_delivery_block L s order_id rsn)) = token_rq L s # rest"
    by (simp add: requests_of_removal)
qed (simp_all add: session_after_removal session_after_read session_after_test
       session_after_token_failure session_after_token_success)

theorem session_state_set_by_token_step_witness:
  "status forbidden_response = 403 \<and>
   truthy (csrf_token (stale_service [Inr forbidden_response])) \<and>
   \<not> fst (get_csrf_token mock_lib (stale_service [Inr forbidden_response])) \<and>
   csrf_token (snd (get_csrf_token mock_lib (stale_service [Inr forbidden_response]))) = Some ''old'' \<and>
   cookies (snd (get_csrf_token mock_lib (stale_service [Inr forbidden_response]))) = Some ''z=9'' \<and>
   status forbidden_token_response = 403 \<and>
   fst (get_csrf_token mock_lib (stale_service [Inr forbidden_token_response])) \<and>
   csrf_token (snd (get_csrf_token mock_lib (stale_service [Inr forbidden_token_response])))
     = Some ''tok403'' \<and>
   cookies (snd (get_csrf_token mock_lib (stale_service [Inr forbidden_token_response])))
     = Some ''z=9''"
proof -
  let ?A = "stale_service [Inr forbidden_response]"
  let ?B = "stale_service [Inr forbidden_token_response]"
  note a = session_state_set_by_token_step [where L = mock_lib
      and s = "stale_service [Inr forbidden_response]"]
  note b = session_state_set_by_token_step [where L = mock_lib
      and s = "stale_service [Inr forbidden_token_response]"]
  have s3: "status forbidden_response = 403" "status forbidden_token_response = 403"
    by code_simp+
  have ia: "csrf_token ?A = Some ''old''" "cookies ?A = Some ''z=9''"
    by (simp_all add: stale_service_def)
  have ib: "cookies ?B = Some ''z=9''"
    by (simp add: stale_service_def)
  have nf: "\<not> fst (get_csrf_token mock_lib ?A)" by code_simp
  from a nf have "csrf_token (snd (get_csrf_token mock_lib ?A)) = csrf_token ?A \<and>
      cookies (snd (get_csrf_token mock_lib ?A)) = cookies ?A"
    by blast
  with ia have 1: "csrf_token (snd (get_csrf_token mock_lib ?A)) = Some ''old''"
    and 2: "cookies (snd (get_csrf_token mock_lib ?A)) = Some ''z=9''"
    by simp_all
  have f: "fst (get_csrf_token mock_lib ?B)" by code_simp
  have o: "outcome mock_lib ?B (token_rq mock_lib ?B) = Inr forbidden_token_response"
    by (rule outcome_stale)
  have h: "headers_get forbidden_token_response ''x-csrf-token'' = Some ''tok403''"
    "headers_get_all forbidden_token_response ''Set-Cookie'' = []"
    by code_simp+
  from b f obtain resp where
    "outcome mock_lib ?B (token_rq mock_lib ?B) = Inr resp"
    and t: "csrf_token (snd (get_csrf_token mock_lib ?B)) = headers_get resp ''x-csrf-token''"
    and c: "cookies (snd (get_csrf_token mock_lib ?B)) =
           (case headers_get_all resp ''Set-Cookie'' of
              [] \<Rightarrow> cookies ?B
            | c # cs \<Rightarrow>
                Some (takeWhile (\<lambda>x. x \<noteq> CHR '';'') c
                      @ concat (map (\<lambda>y. ''; '' @ takeWhile (\<lambda>x. x \<noteq> CHR '';'') y) cs)))"
    by blast
  with o have r: "resp = forbidden_token_response" by simp
  from t r h have 3: "csrf_token (snd (get_csrf_token mock_lib ?B)) = Some ''tok403''" by simp
  from c r h ib have 4: "cookies (snd (get_csrf_token mock_lib ?B)) = Some ''z=9''" by simp
  from ia have tr: "truthy (csrf_token ?A)" by simp
  from s3 tr nf 1 2 f 3 4 show ?thesis by blast
qed

text \<open>
  C7 as stated fails on a write answered 403: the call reports the rejection, and the
  token and the cookies stay cached.
\<close>

theorem forbidden_keeps_session_counterexample:
  "status forbidden_response = 403 \<and>
   fst (remove_delivery_block mock_lib (mock_service script_forbidden_write) ''4353'' ''ok'')
     = Err ''Update failed: 403 - Forbidden'' \<and>
   csrf_token (snd (remove_delivery_block mock_lib (mock_service script_forbidden_write) ''4353'' ''ok''))
     = Some ''tok123'' \<and>
   cookies (snd (remove_delivery_block mock_lib (mock_service script_forbidden_write) ''4353'' ''ok''))
     = Some ''a=1; b=2''"
  by code_simp

section \<open>The payload\<close>

text \<open>
  C8. Every PATCH made by \<open>remove_delivery_block\<close> has the body
  \<open>{"DeliveryBlockReason": ""}\<close>, whatever was read before. The argument \<open>reason\<close> is
  found in the successful result only: with another reason the requests made, the cached
  state and the remote system end up the same, an error stays the same, and a success
  differs in its \<open>reason\<close> entry alone.
\<close>

theorem payload_is_fixed:
  \<open>(\<forall>rq \<in> set (new_requests s (snd (remove_delivery_block L s order_id rsn))).
      is_patch rq \<longrightarrow> req_body rq = Some ''{"DeliveryBlockReason": ""}'') \<and>
   snd (remove_delivery_block L s order_id rsn') = snd (remove_delivery_block L s order_id rsn) \<and>
   fst (remove_delivery_block L s order_id rsn') =
     (case fst (remove_delivery_block L s order_id rsn) of
        Ok m \<Rightarrow> Ok (m\<lparr>reason := rsn'\<rparr>)
      | Err e \<Rightarrow> Err e)\<close>
  using state_without_reason [of L s order_id rsn' rsn] result_without_reason [of L s order_id rsn' rsn]
  by (simp add: body_of_issued_patch)

theorem payload_is_fixed_witness:
  \<open>(\<exists>rq \<in> set (new_requests (mock_service script_removed)
        (snd (remove_delivery_block mock_lib (mock_service script_removed) ''SO4353'' ''ok''))).
      is_patch rq \<and> req_body rq = Some ''{"DeliveryBlockReason": ""}'') \<and>
   fst (remove_delivery_block mock_lib (mock_service script_removed) ''SO4353'' ''ok'')
     = Ok \<lparr>message = ''Delivery block removed from order SO4353'', reason = ''ok''\<rparr> \<and>
   fst (remove_delivery_block mock_lib (mock_service script_removed) ''SO4353'' ''approved'')
     = Ok \<lparr>message = ''Delivery block removed from order SO4353'', reason = ''approved''\<rparr>\<close>
proof -
  let ?A = "mock_service script_removed"
  have p: "\<exists>rq \<in> set (new_requests ?A
        (snd (remove_delivery_block mock_lib ?A ''SO4353'' ''ok''))). is_patch rq"
    by code_simp
  have r: "fst (remove_delivery_block mock_lib ?A ''SO4353'' ''ok'')
     = Ok \<lparr>message = ''Delivery block removed from order SO4353'', reason = ''ok''\<rparr>"
    by code_simp
  note w = payload_is_fixed [where L = mock_lib and s = "mock_service script_removed"
      and order_id = "''SO4353''" and rsn = "''ok''" and rsn' = "''approved''"]
  from w p have 1: \<open>\<exists>rq \<in> set (new_requests ?A
        (snd (remove_delivery_block mock_lib ?A ''SO4353'' ''ok''))).
      is_patch rq \<and> req_body rq = Some ''{"DeliveryBlockReason": ""}''\<close>
    by blast
  from w r have 2: "fst (remove_delivery_block mock_lib ?A ''SO4353'' ''approved'')
     = Ok \<lparr>message = ''Delivery block removed from order SO4353'', reason = ''approved''\<rparr>"
    by simp
  from 1 r 2 show ?thesis by blast
qed

section \<open>Token acquisition does not look at the status\<close>

text \<open>
  C9, as the code has it. When the token request returns a response, \<open>get_csrf_token\<close>
  returns \<open>True\<close> exactly when \<open>headers.get('x-csrf-token')\<close> is a non-empty string, and
  then caches that value; the status of the response plays no part. When the request
  raises, it returns \<open>False\<close>.
\<close>

theorem token_success_is_header_truth:
  "(\<forall>resp. outcome L s (token_rq L s) = Inr resp \<longrightarrow>
      fst (get_csrf_token L s) = truthy (headers_get resp ''x-csrf-token'') \<and>
      (truthy (headers_get resp ''x-csrf-token'') \<longrightarrow>
         csrf_token (snd (get_csrf_token L s)) = headers_get resp ''x-csrf-token'')) \<and>
   (\<forall>e. outcome L s (token_rq L s) = Inl e \<longrightarrow> \<not> fst (get_csrf_token L s))"
  by (simp add: get_csrf_token_eq)

theorem token_success_is_header_truth_witness:
  "outcome mock_lib (mock_service [Inr forbidden_token_response])
     (token_rq mock_lib (mock_service [Inr forbidden_token_response]))
     = Inr forbidden_token_response \<and>
   status forbidden_token_response = 403 \<and>
   truthy (headers_get forbidden_token_response ''x-csrf-token'') \<and>
   fst (get_csrf_token mock_lib (mock_service [Inr forbidden_token_response])) \<and>
   csrf_token (snd (get_csrf_token mock_lib (mock_service [Inr forbidden_token_response])))
     = Some ''tok403'' \<and>
   outcome mock_lib (mock_service [Inl ''timed out''])
     (token_rq mock_lib (mock_service [Inl ''timed out''])) = Inl ''timed out'' \<and>
   \<not> fst (get_csrf_token mock_lib (mock_service [Inl ''timed out'']))"
proof -
  let ?A = "mock_service [Inr forbidden_token_response]" and ?B = "mock_service [Inl ''timed out'']"
  have o: "outcome mock_lib ?A (token_rq mock_lib ?A) = Inr forbidden_token_response"
    by (rule outcome_mock)
  have st: "status forbidden_token_response = 403" by code_simp
  have h: "headers_get forbidden_token_response ''x-csrf-token'' = Some ''tok403''" by code_simp
  then have t: "truthy (headers_get forbidden_token_response ''x-csrf-token'')" by simp
  have e: "outcome mock_lib ?B (token_rq mock_lib ?B) = Inl ''timed out''"
    by (rule outcome_mock)
  note a = token_success_is_header_truth [where L = mock_lib
      and s = "mock_service [Inr forbidden_token_response]"]
  note b = token_success_is_header_truth [where L = mock_lib
      and s = "mock_service [Inl ''timed out'']"]
  from a o t have 1: "fst (get_csrf_token mock_lib ?A)" by blast
  from a o t have "csrf_token (snd (get_csrf_token mock_lib ?A))
      = headers_get forbidden_token_response ''x-csrf-token''" by blast
  with h have 2: "csrf_token (snd (get_csrf_token mock_lib ?A)) = Some ''tok403''" by simp
  from b e have 3: "\<not> fst (get_csrf_token mock_lib ?B)" by blast
  from o st t 1 2 e 3 show ?thesis by blast
qed

text \<open>
  C9 as stated fails for a response that carries the header with an empty value: the
  header is present, and the call returns \<open>False\<close> and caches nothing.
\<close>

theorem empty_token_counterexample:
  "status empty_token_response = 200 \<and>
   headers_get empty_token_response ''x-csrf-token'' = Some '''' \<and>
   fst (get_csrf_token mock_lib (mock_service [Inr empty_token_response])) = False \<and>
   csrf_token (snd (get_csrf_token mock_lib (mock_service [Inr empty_token_response]))) = None"
  by code_simp

section \<open>The order id\<close>



end
